theory Spec2Isabelle
  imports Complex_Main "HOL-Library.List_Lexorder" "HOL-Library.Multiset"
begin

section \<open>Python values\<close>

text \<open>
  A Python \<^verbatim>\<open>str\<close> is a sequence of Unicode code points, and \<^verbatim>\<open>len\<close>, slicing,
  \<^verbatim>\<open>splitlines\<close> and \<^verbatim>\<open>strip\<close> all count code points. A string is therefore a list of
  code points (natural numbers); \<open>str\<close> embeds an ASCII literal. Comparison of two strings
  in Python is the lexicographic order on the code points, which is the order of
  \<open>nat list\<close>.
\<close>

type_synonym pystr = "nat list"

definition str :: "string \<Rightarrow> pystr" where
  "str s = map of_char s"

text \<open>\<^verbatim>\<open>sep.join(xs)\<close>.\<close>

fun join :: "pystr \<Rightarrow> pystr list \<Rightarrow> pystr" where
  "join sep [] = []"
| "join sep [x] = x"
| "join sep (x # y # ys) = x @ sep @ join sep (y # ys)"

text \<open>\<^verbatim>\<open>str(n)\<close> of an integer, as an f-string formats it: decimal digits, a minus sign
  for a negative number.\<close>

function str_nat :: "nat \<Rightarrow> pystr" where
  "str_nat n = (if n < 10 then [48 + n] else str_nat (n div 10) @ [48 + n mod 10])"
  by pat_completeness auto
termination
  by (relation "measure id") auto

declare str_nat.simps [simp del]

definition str_int :: "int \<Rightarrow> pystr" where
  "str_int i = (if i < 0 then 45 # str_nat (nat (- i)) else str_nat (nat i))"

text \<open>
  \<^verbatim>\<open>sorted(xs, key=key, reverse=True)\<close>. Python sorts stably, and with \<^verbatim>\<open>reverse=True\<close>
  it reverses the list, sorts it stably in ascending order of the key, and reverses the
  result, so that elements with equal keys keep their input order. \<open>sort_key\<close> is the
  stable insertion sort of the list library.
\<close>

definition sorted_reverse :: "('a \<Rightarrow> 'k::linorder) \<Rightarrow> 'a list \<Rightarrow> 'a list" where
  "sorted_reverse key xs = rev (sort_key key (rev xs))"

section \<open>Posts and the digest text\<close>

text \<open>The dictionary that \<^verbatim>\<open>get_today_posts\<close> builds for one submission (lines 84 to 92).\<close>

record post =
  title :: pystr
  score :: int
  num_comments :: int
  selftext :: pystr
  shortlink :: pystr
  created_utc :: real
  comments :: "pystr list"

text \<open>Lines 110 to 116: the comments joined, cut to \<^verbatim>\<open>max_chars\<close> with a marker.\<close>

definition combined_comments :: "pystr list \<Rightarrow> pystr" where
  "combined_comments cs =
     (let combined = join (str '' \<newline>- '') cs;
          max_chars = 3000
      in if length combined > max_chars then take max_chars combined @ str ''...''
         else combined)"

text \<open>One iteration of the loop of \<^verbatim>\<open>prepare_posts_for_summary\<close> (lines 102 to 118):
  the text so far, extended by the block of post \<open>i\<close>.\<close>

definition append_post :: "nat \<Rightarrow> post \<Rightarrow> pystr \<Rightarrow> pystr" where
  "append_post i p summary_text =
     (let s1 = summary_text @ str ''~~~POST #'' @ str_nat i @ str '' START\<newline>'';
          s2 = s1 @ str ''Title: '' @ title p @ str ''\<newline>'';
          s3 = s2 @ str ''Score: '' @ str_int (score p) @ str ''\<newline>'';
          s4 = s3 @ str ''Comments: '' @ str_int (num_comments p) @ str ''\<newline>'';
          s5 = s4 @ str ''Link: '' @ shortlink p @ str ''\<newline>'';
          s6 = (if selftext p \<noteq> []
                then s5 @ str ''Post content: '' @ take 1500 (selftext p) @ str ''...\<newline>\<newline>''
                else s5);
          s7 = (if comments p \<noteq> []
                then s6 @ str ''Comments:\<newline>- '' @ combined_comments (comments p) @ str ''\<newline>''
                else s6)
      in s7 @ str ''~~~POST #'' @ str_nat i @ str '' END\<newline>\<newline>'')"

text \<open>\<^verbatim>\<open>for i, post in enumerate(posts_sorted, 1)\<close>, from index \<open>i\<close> on.\<close>

fun format_loop :: "nat \<Rightarrow> post list \<Rightarrow> pystr \<Rightarrow> pystr" where
  "format_loop i [] summary_text = summary_text"
| "format_loop i (p # ps) summary_text = format_loop (i + 1) ps (append_post i p summary_text)"

definition posts_sorted :: "post list \<Rightarrow> post list" where
  "posts_sorted posts = sorted_reverse score posts"

definition prepare_posts_for_summary :: "pystr \<Rightarrow> post list \<Rightarrow> pystr" where
  "prepare_posts_for_summary subreddit posts =
     (if posts = [] then str ''No posts found for today.''
      else format_loop 1 (posts_sorted posts)
             (str ''Today's Reddit r/'' @ subreddit @ str '' posts:\<newline>\<newline>''))"

text \<open>Names for the parts of the digest: the header, the block of one post (what one
  iteration appends), and the numbering \<^verbatim>\<open>enumerate(xs, i)\<close>.\<close>

definition digest_header :: "pystr \<Rightarrow> pystr" where
  "digest_header subreddit = str ''Today's Reddit r/'' @ subreddit @ str '' posts:\<newline>\<newline>''"

definition post_block :: "nat \<Rightarrow> post \<Rightarrow> pystr" where
  "post_block i p = append_post i p []"

fun enumerate_from :: "nat \<Rightarrow> 'a list \<Rightarrow> (nat \<times> 'a) list" where
  "enumerate_from i [] = []"
| "enumerate_from i (x # xs) = (i, x) # enumerate_from (i + 1) xs"

section \<open>Flattening comment bodies\<close>

text \<open>
  The code points at which \<^verbatim>\<open>str.splitlines\<close> breaks a line (LF, VT, FF, CR, FS, GS, RS,
  NEL, LINE SEPARATOR, PARAGRAPH SEPARATOR), and the code points that \<^verbatim>\<open>str.strip\<close>
  removes (those for which \<^verbatim>\<open>str.isspace\<close> holds).
\<close>

definition is_linebreak :: "nat \<Rightarrow> bool" where
  "is_linebreak c = (c \<in> {0x0A, 0x0B, 0x0C, 0x0D, 0x1C, 0x1D, 0x1E, 0x85, 0x2028, 0x2029})"

definition is_space :: "nat \<Rightarrow> bool" where
  "is_space c =
     ((0x09 \<le> c \<and> c \<le> 0x0D) \<or> (0x1C \<le> c \<and> c \<le> 0x20) \<or> c = 0x85 \<or> c = 0xA0
      \<or> c = 0x1680 \<or> (0x2000 \<le> c \<and> c \<le> 0x200A) \<or> c = 0x2028 \<or> c = 0x2029
      \<or> c = 0x202F \<or> c = 0x205F \<or> c = 0x3000)"

text \<open>
  \<^verbatim>\<open>s.splitlines()\<close>: while text remains, the line runs up to the next line break, the
  break is skipped (CR LF counting as one break), and the line is added. A final line
  break opens no further line.
\<close>

function splitlines :: "pystr \<Rightarrow> pystr list" where
  "splitlines s =
     (if s = [] then []
      else let line = takeWhile (\<lambda>c. \<not> is_linebreak c) s;
               rest = dropWhile (\<lambda>c. \<not> is_linebreak c) s
           in (case rest of
                 [] \<Rightarrow> [line]
               | c # r \<Rightarrow>
                   line # splitlines (if c = 0x0D \<and> r \<noteq> [] \<and> hd r = 0x0A then tl r else r)))"
  by pat_completeness auto
termination
proof (relation "measure length")
  show "wf (measure length)" by simp
next
  fix s :: pystr and line rest c r
  assume "s \<noteq> []" and "rest = dropWhile (\<lambda>c. \<not> is_linebreak c) s" and "rest = c # r"
  then have "length (c # r) \<le> length s"
    by (metis length_dropWhile_le)
  then have "length r < length s" and "length (tl r) < length s"
    by simp_all
  then show "((if c = 0x0D \<and> r \<noteq> [] \<and> hd r = 0x0A then tl r else r), s) \<in> measure length"
    by simp
qed

declare splitlines.simps [simp del]

text \<open>\<^verbatim>\<open>s.strip()\<close>.\<close>

definition strip :: "pystr \<Rightarrow> pystr" where
  "strip s = rev (dropWhile is_space (rev (dropWhile is_space s)))"

text \<open>Line 68: \<^verbatim>\<open>" ".join(body.splitlines()).strip()\<close>.\<close>

definition flatten_body :: "pystr \<Rightarrow> pystr" where
  "flatten_body body = strip (join (str '' '') (splitlines body))"

section \<open>Exceptions and the forum client\<close>

text \<open>
  An instance of \<^verbatim>\<open>Exception\<close>, with the text that \<^verbatim>\<open>str(e)\<close> gives. A call that can raise
  returns \<open>exn + 'a\<close>, \<open>Inl\<close> being the raise.
\<close>

datatype exn = Exception (exn_str: pystr)

text \<open>
  An element of \<^verbatim>\<open>submission.comments.list()\<close>, seen through
  \<^verbatim>\<open>getattr(c, 'body', None)\<close>: reading the attribute raises, or there is no such attribute
  (\<open>None\<close>), or it has a value.
\<close>

type_synonym cnode = "exn + pystr option"

text \<open>
  A submission as the forum client delivers it. \<open>replace_more\<close> is the outcome of
  \<^verbatim>\<open>submission.comments.replace_more(limit=n)\<close> (an exception or none), \<open>comments_list\<close>
  the flattened comment forest that \<^verbatim>\<open>submission.comments.list()\<close> returns after it.
\<close>

record submission =
  sub_title :: pystr
  sub_score :: int
  sub_num_comments :: int
  sub_selftext :: pystr
  sub_shortlink :: pystr
  sub_created_utc :: real
  replace_more :: "nat \<Rightarrow> exn option"
  comments_list :: "cnode list"

definition SUBREDDIT_MAX_POSTS :: nat where
  "SUBREDDIT_MAX_POSTS = 8"

definition POST_MAX_COMMENTS :: nat where
  "POST_MAX_COMMENTS = 21"

text \<open>
  The loop of \<^verbatim>\<open>get_submission_comments\<close> (lines 63 to 71) inside its \<^verbatim>\<open>try\<close>: an
  exception leaves the loop, and \<^verbatim>\<open>except Exception: pass\<close> returns what was collected
  (the list \<^verbatim>\<open>comments\<close> of the source, here \<open>collected\<close>).
\<close>

fun comments_loop :: "cnode list \<Rightarrow> pystr list \<Rightarrow> pystr list" where
  "comments_loop [] collected = collected"
| "comments_loop (Inl e # cs) collected = collected"
| "comments_loop (Inr None # cs) collected = comments_loop cs collected"
| "comments_loop (Inr (Some body) # cs) collected =
     (if body = [] then comments_loop cs collected
      else let b = flatten_body body;
               collected' = collected @ [b]
           in if length collected' \<ge> POST_MAX_COMMENTS then collected'
              else comments_loop cs collected')"

definition get_submission_comments :: "submission \<Rightarrow> pystr list" where
  "get_submission_comments submission =
     (case replace_more submission POST_MAX_COMMENTS of
        Some e \<Rightarrow> []
      | None \<Rightarrow> comments_loop (drop 1 (comments_list submission)) [])"

section \<open>Collecting the posts of a source\<close>

text \<open>
  The collaborators of a run. \<open>utcnow\<close> is the naive datetime that \<^verbatim>\<open>datetime.utcnow()\<close>
  returns, in seconds on the wall clock since 1970-01-01 00:00:00: it shows UTC and
  carries no time zone. \<open>local_utcoffset\<close> is the offset of the machine's local time
  zone from UTC, in seconds. \<open>subreddit_new name limit\<close> is the listing
  \<^verbatim>\<open>reddit.subreddit(name).new(limit=limit)\<close>, read to its end, or the exception raised
  while reading it. The other fields are the inference backend (model, system message,
  user message, token ceiling; the result is \<^verbatim>\<open>message.content\<close> of each choice), the
  failure of writing a named file, and the failure of the HTTP request to the
  notification service.
\<close>

record env =
  utcnow :: real
  local_utcoffset :: real
  subreddit_new :: "pystr \<Rightarrow> nat \<Rightarrow> exn + submission list"
  chat_completions_create :: "pystr \<Rightarrow> pystr \<Rightarrow> pystr \<Rightarrow> nat \<Rightarrow> exn + pystr option list"
  file_write_error :: "pystr \<Rightarrow> exn option"
  requests_post :: "pystr \<Rightarrow> exn option"

text \<open>
  \<^verbatim>\<open>d.timestamp()\<close> of a naive datetime \<open>d\<close>: Python reads a naive datetime as local
  time, so the POSIX timestamp is the wall-clock reading less the local offset.
  Timestamps are taken as exact numbers (the rounding of \<^verbatim>\<open>float\<close> is not modelled).
\<close>

definition timestamp :: "env \<Rightarrow> real \<Rightarrow> real" where
  "timestamp env d = d - local_utcoffset env"

text \<open>Line 78.\<close>

definition cutoff_ts :: "env \<Rightarrow> real" where
  "cutoff_ts env = timestamp env (utcnow env - 24 * 3600)"

text \<open>Lines 84 to 92.\<close>

definition make_post :: "submission \<Rightarrow> post" where
  "make_post submission =
     \<lparr> title = sub_title submission,
       score = sub_score submission,
       num_comments = sub_num_comments submission,
       selftext = (if sub_selftext submission \<noteq> [] then take 1000 (sub_selftext submission) else []),
       shortlink = sub_shortlink submission,
       created_utc = sub_created_utc submission,
       comments = get_submission_comments submission \<rparr>"

text \<open>The loop of \<^verbatim>\<open>get_today_posts\<close> (lines 80 to 92).\<close>

fun posts_loop :: "real \<Rightarrow> submission list \<Rightarrow> post list \<Rightarrow> post list" where
  "posts_loop cutoff [] posts = posts"
| "posts_loop cutoff (submission # rest) posts =
     (if sub_created_utc submission \<ge> cutoff
      then posts_loop cutoff rest (posts @ [make_post submission])
      else posts_loop cutoff rest posts)"

definition get_today_posts :: "env \<Rightarrow> pystr \<Rightarrow> exn + post list" where
  "get_today_posts env subreddit =
     (case subreddit_new env subreddit SUBREDDIT_MAX_POSTS of
        Inl e \<Rightarrow> Inl e
      | Inr submissions \<Rightarrow> Inr (posts_loop (cutoff_ts env) submissions []))"

section \<open>The summarizer\<close>

definition OPENAI_MODEL :: pystr where
  "OPENAI_MODEL = str ''gpt-5-mini''"

definition OPENAI_MAX_COMPLETION_TOKENS :: nat where
  "OPENAI_MAX_COMPLETION_TOKENS = 4000"

definition OPENAI_MESSAGE_SYSTEM :: pystr where
  "OPENAI_MESSAGE_SYSTEM = str ''\<newline>You are a financial analyst. \<newline>''"

definition OPENAI_MESSAGE_USER :: pystr where
  "OPENAI_MESSAGE_USER =
     str ''\<newline>Summarize this into numbered list with a few key items. No need to list everything. \<newline>''
     @ str ''Add new lines between list items. Use notation like 1) for item start. \<newline>''
     @ str ''Find best stock that will go up very soon. This is your main goal. \<newline>''
     @ str ''Find main market sentiments.\<newline>''
     @ str ''Don't use company names, use stock names instead. \<newline>''
     @ str ''For stock names use notation like $TSLA with a $. \<newline>''
     @ str ''At the end of every list item append without new lines:\<newline>''
     @ str '' - give related Reddit post links, format: '' @ [0x27, 0x1F5E3, 0xFE0F]
     @ str ''LINK'' @ [0x27] @ str '' \<newline>''
     @ str '' - give Public stock links, format: '' @ [0x27, 0x1F4C8]
     @ str ''https://public.com/stocks/STOCK_NAME'' @ [0x27] @ str ''.  \<newline>''
     @ str ''No markdown. \<newline>''
     @ str ''DO NOT GO OVER 3000 characters:\<newline>\<newline>\<newline>''"

text \<open>
  \<^verbatim>\<open>summarize_with_openai\<close>. The result is \<^verbatim>\<open>response.choices[0].message.content\<close>, which
  may be \<^verbatim>\<open>None\<close>; an exception of the call, or the \<^verbatim>\<open>IndexError\<close> of an empty list of
  choices, is turned into a diagnostic string.
\<close>

definition summarize_with_openai :: "env \<Rightarrow> pystr \<Rightarrow> pystr option" where
  "summarize_with_openai env text =
     (case chat_completions_create env OPENAI_MODEL OPENAI_MESSAGE_SYSTEM
             (OPENAI_MESSAGE_USER @ text) OPENAI_MAX_COMPLETION_TOKENS of
        Inl e \<Rightarrow> Some (str ''Error generating summary: '' @ exn_str e)
      | Inr [] \<Rightarrow> Some (str ''Error generating summary: '' @ str ''list index out of range'')
      | Inr (content # _) \<Rightarrow> content)"

section \<open>Artifacts, notification and the run of one source\<close>

text \<open>
  The state outside the program: the files of the output directory, each with what
  reading it yields (its text, or an exception), and the messages handed to the
  notification service. A write that fails leaves the directory as it was; a write that
  succeeds replaces the file of that name or adds it. What the program prints is not
  modelled.
\<close>

type_synonym folder = "(pystr \<times> (exn + pystr)) list"

record world =
  output_dir :: folder
  telegram :: "pystr list"

fun write_file :: "pystr \<Rightarrow> pystr \<Rightarrow> folder \<Rightarrow> folder" where
  "write_file name text [] = [(name, Inr text)]"
| "write_file name text ((n, f) # entries) =
     (if n = name then (name, Inr text) # entries else (n, f) # write_file name text entries)"

definition write_output_file :: "env \<Rightarrow> pystr \<Rightarrow> pystr \<Rightarrow> world \<Rightarrow> (exn + unit) \<times> world" where
  "write_output_file env name text w =
     (case file_write_error env name of
        Some e \<Rightarrow> (Inl e, w)
      | None \<Rightarrow> (Inr (), w\<lparr>output_dir := write_file name text (output_dir w)\<rparr>))"

definition send_telegram_message :: "env \<Rightarrow> pystr \<Rightarrow> world \<Rightarrow> (exn + unit) \<times> world" where
  "send_telegram_message env text w =
     (case requests_post env text of
        Some e \<Rightarrow> (Inl e, w)
      | None \<Rightarrow> (Inr (), w\<lparr>telegram := telegram w @ [text]\<rparr>))"

text \<open>
  The body of the \<^verbatim>\<open>try\<close> of \<^verbatim>\<open>run\<close> (lines 156 to 168). \<^verbatim>\<open>summary += None\<close> raises a
  \<^verbatim>\<open>TypeError\<close>.
\<close>

definition run_try :: "env \<Rightarrow> pystr \<Rightarrow> world \<Rightarrow> (exn + pystr) \<times> world" where
  "run_try env subreddit w =
     (case get_today_posts env subreddit of
        Inl e \<Rightarrow> (Inl e, w)
      | Inr posts \<Rightarrow>
          let posts_text = prepare_posts_for_summary subreddit posts;
              summary = [0x1F4CA] @ str '' TODAY'S r/'' @ subreddit @ str '' SUMMARY\<newline>\<newline>''
          in (case summarize_with_openai env posts_text of
                None \<Rightarrow>
                  (Inl (Exception (str ''can only concatenate str (not '' @ [0x22] @ str ''NoneType''
                                   @ [0x22] @ str '') to str'')), w)
              | Some generated \<Rightarrow>
                  let summary = summary @ generated
                  in (case write_output_file env (subreddit @ str ''.txt'') posts_text w of
                        (Inl e, w1) \<Rightarrow> (Inl e, w1)
                      | (Inr _, w1) \<Rightarrow>
                          (case write_output_file env (subreddit @ str ''-summary.txt'') summary w1 of
                             (Inl e, w2) \<Rightarrow> (Inl e, w2)
                           | (Inr _, w2) \<Rightarrow>
                               (case send_telegram_message env summary w2 of
                                  (Inl e, w3) \<Rightarrow> (Inl e, w3)
                                | (Inr _, w3) \<Rightarrow> (Inr summary, w3))))))"

text \<open>\<^verbatim>\<open>run\<close>: the \<^verbatim>\<open>try\<close> with its \<^verbatim>\<open>except Exception\<close>, which returns the empty string.\<close>

definition run :: "env \<Rightarrow> pystr \<Rightarrow> world \<Rightarrow> (exn + pystr) \<times> world" where
  "run env subreddit w =
     (case run_try env subreddit w of
        (Inl e, w') \<Rightarrow> (Inr [], w')
      | (Inr summary, w') \<Rightarrow> (Inr summary, w'))"

text \<open>
  The loop of \<^verbatim>\<open>main\<close> (lines 191 and 192): an exception that left \<^verbatim>\<open>run\<close> would end the
  loop. The result lists what each call of \<^verbatim>\<open>run\<close> returned.
\<close>

fun run_sources :: "env \<Rightarrow> pystr list \<Rightarrow> world \<Rightarrow> (exn + pystr list) \<times> world" where
  "run_sources env [] w = (Inr [], w)"
| "run_sources env (sub # subs) w =
     (case run env sub w of
        (Inl e, w') \<Rightarrow> (Inl e, w')
      | (Inr summary, w') \<Rightarrow>
          (case run_sources env subs w' of
             (Inl e, w'') \<Rightarrow> (Inl e, w'')
           | (Inr summaries, w'') \<Rightarrow> (Inr (summary # summaries), w'')))"

definition main_sources :: "pystr list" where
  "main_sources = [str ''wallstreetbets'', str ''stocks'', str ''investing'',
                   str ''swingtrading'', str ''StockMarket'', str ''Economics'']"

section \<open>Aggregating the summaries of a folder\<close>





section \<open>The digest formatter on a store of objects\<close>

text \<open>
  To say what \<^verbatim>\<open>prepare_posts_for_summary\<close> does to its argument, lists and dictionaries
  are objects of a store, addressed by their position: the argument is the address of a
  list object holding the addresses of the post dictionaries. \<^verbatim>\<open>sorted\<close> allocates a new
  list object for its result; the loop only reads.
\<close>

datatype obj = ListObj "nat list" | DictObj post

type_synonym store = "obj list"

definition get_list :: "store \<Rightarrow> nat \<Rightarrow> nat list option" where
  "get_list h a =
     (if a < length h then (case h ! a of ListObj refs \<Rightarrow> Some refs | DictObj _ \<Rightarrow> None)
      else None)"

definition get_dict :: "store \<Rightarrow> nat \<Rightarrow> post option" where
  "get_dict h a =
     (if a < length h then (case h ! a of DictObj p \<Rightarrow> Some p | ListObj _ \<Rightarrow> None)
      else None)"

definition alloc :: "obj \<Rightarrow> store \<Rightarrow> nat \<times> store" where
  "alloc x h = (length h, h @ [x])"

fun format_loop_store :: "store \<Rightarrow> nat \<Rightarrow> nat list \<Rightarrow> pystr \<Rightarrow> pystr option" where
  "format_loop_store h i [] summary_text = Some summary_text"
| "format_loop_store h i (r # refs) summary_text =
     (case get_dict h r of
        None \<Rightarrow> None
      | Some p \<Rightarrow> format_loop_store h (i + 1) refs (append_post i p summary_text))"

text \<open>The result is \<open>None\<close> when the argument is not the address of a list of post
  dictionaries, which a call from \<^verbatim>\<open>run\<close> never is.\<close>

definition prepare_posts_for_summary_store ::
    "pystr \<Rightarrow> nat \<Rightarrow> store \<Rightarrow> (pystr \<times> store) option" where
  "prepare_posts_for_summary_store subreddit posts h =
     (case get_list h posts of
        None \<Rightarrow> None
      | Some refs \<Rightarrow>
          if list_ex (\<lambda>r. get_dict h r = None) refs then None
          else if refs = [] then Some (str ''No posts found for today.'', h)
          else let (sorted_addr, h') =
                     alloc (ListObj (sorted_reverse (\<lambda>r. score (the (get_dict h r))) refs)) h
               in (case get_list h' sorted_addr of
                     None \<Rightarrow> None
                   | Some sorted_refs \<Rightarrow>
                       (case format_loop_store h' 1 sorted_refs
                               (str ''Today's Reddit r/'' @ subreddit @ str '' posts:\<newline>\<newline>'') of
                          None \<Rightarrow> None
                        | Some summary_text \<Rightarrow> Some (summary_text, h'))))"

section \<open>Parts of a block and sample inputs\<close>

text \<open>The lines of a block before the post content (lines 102 to 106) and its closing
  line (line 118).\<close>

definition block_head :: "nat \<Rightarrow> post \<Rightarrow> pystr" where
  "block_head i p =
     str ''~~~POST #'' @ str_nat i @ str '' START\<newline>''
     @ str ''Title: '' @ title p @ str ''\<newline>''
     @ str ''Score: '' @ str_int (score p) @ str ''\<newline>''
     @ str ''Comments: '' @ str_int (num_comments p) @ str ''\<newline>''
     @ str ''Link: '' @ shortlink p @ str ''\<newline>''"

definition block_end :: "nat \<Rightarrow> pystr" where
  "block_end i = str ''~~~POST #'' @ str_nat i @ str '' END\<newline>\<newline>''"

definition example_post :: "pystr \<Rightarrow> int \<Rightarrow> post" where
  "example_post t s =
     \<lparr> title = t, score = s, num_comments = 0, selftext = [],
       shortlink = str ''https://redd.it/x'', created_utc = 0, comments = [] \<rparr>"

definition long_post :: post where
  "long_post =
     \<lparr> title = str ''t'', score = 1, num_comments = 1, selftext = replicate 1600 0x78,
       shortlink = str ''https://redd.it/x'', created_utc = 0,
       comments = [replicate 3500 0x79] \<rparr>"

section \<open>The flattened body, as the specification words it\<close>

text \<open>
  The specification's description of a flattened body: every line break of the body is
  replaced by one space (CR LF being one line break), and the result is trimmed.
  \<open>replace_breaks\<close> is the first half; \<open>trailing\<close> is the space that stands for a
  line break at the very end of the body.
\<close>

fun replace_breaks :: "pystr \<Rightarrow> pystr" where
  "replace_breaks [] = []"
| "replace_breaks [c] = (if is_linebreak c then [0x20] else [c])"
| "replace_breaks (c # d # cs) =
     (if c = 0x0D \<and> d = 0x0A then 0x20 # replace_breaks cs
      else if is_linebreak c then 0x20 # replace_breaks (d # cs)
      else c # replace_breaks (d # cs))"

definition trailing :: "pystr \<Rightarrow> pystr" where
  "trailing s = (if s \<noteq> [] \<and> is_linebreak (last s) then [0x20] else [])"

section \<open>Eligible comments and sample submissions\<close>




section \<open>Sample environments\<close>

definition plain_submission :: "real \<Rightarrow> submission" where
  "plain_submission t =
     \<lparr> sub_title = str ''t'', sub_score = 1, sub_num_comments = 0, sub_selftext = [],
       sub_shortlink = str ''https://redd.it/x'', sub_created_utc = t,
       replace_more = (\<lambda>limit. None), comments_list = [] \<rparr>"

text \<open>A machine whose local time zone is two hours ahead of UTC, at 2025-11-06 00:00:00
  UTC; the listing holds one submission, created 25 hours before.\<close>

definition tz_env :: env where
  "tz_env =
     \<lparr> utcnow = 1762387200, local_utcoffset = 7200,
       subreddit_new = (\<lambda>name limit. Inr [plain_submission (1762387200 - 25 * 3600)]),
       chat_completions_create = (\<lambda>model system user max_tokens. Inr [Some (str ''ok'')]),
       file_write_error = (\<lambda>name. None),
       requests_post = (\<lambda>text. None) \<rparr>"

text \<open>The same machine with its time zone set to UTC; the listing holds a submission
  created exactly 24 hours before and one a second older.\<close>

definition utc_env :: env where
  "utc_env =
     \<lparr> utcnow = 1762387200, local_utcoffset = 0,
       subreddit_new = (\<lambda>name limit. Inr [plain_submission (1762387200 - 24 * 3600),
                                            plain_submission (1762387200 - 24 * 3600 - 1)]),
       chat_completions_create = (\<lambda>model system user max_tokens. Inr [Some (str ''ok'')]),
       file_write_error = (\<lambda>name. None),
       requests_post = (\<lambda>text. None) \<rparr>"

text \<open>An environment whose inference backend refuses every call.\<close>

definition failing_backend :: env where
  "failing_backend =
     \<lparr> utcnow = 1762387200, local_utcoffset = 0,
       subreddit_new = (\<lambda>name limit. Inr []),
       chat_completions_create =
         (\<lambda>model system user max_tokens. Inl (Exception (str ''Connection error.''))),
       file_write_error = (\<lambda>name. None),
       requests_post = (\<lambda>text. None) \<rparr>"

text \<open>An environment whose forum client fails for one source and returns an empty
  listing for every other one; a world with no files and no messages.\<close>

definition flaky_env :: env where
  "flaky_env =
     \<lparr> utcnow = 1762387200, local_utcoffset = 0,
       subreddit_new = (\<lambda>name limit. if name = str ''wallstreetbets''
                                       then Inl (Exception (str ''received 503 HTTP response''))
                                       else Inr []),
       chat_completions_create = (\<lambda>model system user max_tokens. Inr [Some (str ''ok'')]),
       file_write_error = (\<lambda>name. None),
       requests_post = (\<lambda>text. None) \<rparr>"

definition empty_world :: world where
  "empty_world = \<lparr> output_dir = [], telegram = [] \<rparr>"

section \<open>Readable artifacts and sample stores\<close>




text \<open>A store with three post dictionaries (scores 5, 20, 20) at the addresses 0 to 2 and
  the list of their addresses at address 3.\<close>

definition example_store :: store where
  "example_store =
     [DictObj (example_post (str ''a'') 5), DictObj (example_post (str ''b'') 20),
      DictObj (example_post (str ''c'') 20), ListObj [0, 1, 2]]"

section \<open>The digest formatter: results\<close>

lemma append_post_block: "append_post i p acc = acc @ post_block i p"
  by (simp add: append_post_def post_block_def Let_def)

lemma format_loop_blocks:
  "format_loop i ps acc = acc @ concat (map (\<lambda>(j, p). post_block j p) (enumerate_from i ps))"
  by (induction ps arbitrary: i acc) (simp_all add: append_post_block)

lemma prepare_as_blocks:
  "posts \<noteq> [] \<Longrightarrow>
   prepare_posts_for_summary subreddit posts =
     digest_header subreddit @
     concat (map (\<lambda>(j, p). post_block j p) (enumerate_from 1 (posts_sorted posts)))"
  by (simp add: prepare_posts_for_summary_def digest_header_def format_loop_blocks)




text \<open>
  C6. For the empty sequence of posts the formatter returns exactly the literal
  \<^verbatim>\<open>"No posts found for today."\<close>, whatever the source name, and that literal is not the
  empty string.
\<close>

theorem empty_posts_literal:
  "prepare_posts_for_summary subreddit [] = str ''No posts found for today.''
   \<and> prepare_posts_for_summary subreddit [] \<noteq> []"
  by (simp add: prepare_posts_for_summary_def str_def)



lemma post_block_parts:
  "post_block i p =
     block_head i p
     @ (if selftext p = [] then []
        else str ''Post content: '' @ take 1500 (selftext p) @ str ''...\<newline>\<newline>'')
     @ (if comments p = [] then []
        else str ''Comments:\<newline>- '' @ combined_comments (comments p) @ str ''\<newline>'')
     @ block_end i"
  by (simp add: post_block_def append_post_def block_head_def block_end_def Let_def)

lemma combined_comments_cases:
  "(length (join (str '' \<newline>- '') cs) \<le> 3000 \<longrightarrow> combined_comments cs = join (str '' \<newline>- '') cs)
   \<and> (length (join (str '' \<newline>- '') cs) > 3000 \<longrightarrow>
        combined_comments cs = take 3000 (join (str '' \<newline>- '') cs) @ str ''...'')"
  by (simp add: combined_comments_def Let_def)

text \<open>
  C8. For a non-empty sequence of posts the digest is the header followed by the blocks
  of the ranked posts, and the block of every post has this shape: the head lines; when
  the post has body text, the excerpt, which is the first 1500 characters of the body at
  most; when the post has comments, the joined comment text, which is the joined text
  itself when that has at most 3000 characters and otherwise its first 3000 characters
  followed by the marker \<^verbatim>\<open>...\<close>; the closing line.
\<close>

theorem excerpt_and_comments_capped:
  assumes "posts \<noteq> []"
  shows "prepare_posts_for_summary subreddit posts =
           digest_header subreddit @
           concat (map (\<lambda>(i, p). post_block i p) (enumerate_from 1 (posts_sorted posts)))
         \<and> (\<forall>i p. \<exists>excerpt ctext.
               post_block i p =
                 block_head i p
                 @ (if selftext p = [] then []
                    else str ''Post content: '' @ excerpt @ str ''...\<newline>\<newline>'')
                 @ (if comments p = [] then []
                    else str ''Comments:\<newline>- '' @ ctext @ str ''\<newline>'')
                 @ block_end i
               \<and> excerpt = take 1500 (selftext p) \<and> length excerpt \<le> 1500
               \<and> (length (join (str '' \<newline>- '') (comments p)) \<le> 3000 \<longrightarrow>
                    ctext = join (str '' \<newline>- '') (comments p))
               \<and> (length (join (str '' \<newline>- '') (comments p)) > 3000 \<longrightarrow>
                    ctext = take 3000 (join (str '' \<newline>- '') (comments p)) @ str ''...''))"
proof (intro conjI allI)
  show "prepare_posts_for_summary subreddit posts =
           digest_header subreddit @
           concat (map (\<lambda>(i, p). post_block i p) (enumerate_from 1 (posts_sorted posts)))"
    using assms by (rule prepare_as_blocks)
next
  fix i p
  show "\<exists>excerpt ctext.
               post_block i p =
                 block_head i p
                 @ (if selftext p = [] then []
                    else str ''Post content: '' @ excerpt @ str ''...\<newline>\<newline>'')
                 @ (if comments p = [] then []
                    else str ''Comments:\<newline>- '' @ ctext @ str ''\<newline>'')
                 @ block_end i
               \<and> excerpt = take 1500 (selftext p) \<and> length excerpt \<le> 1500
               \<and> (length (join (str '' \<newline>- '') (comments p)) \<le> 3000 \<longrightarrow>
                    ctext = join (str '' \<newline>- '') (comments p))
               \<and> (length (join (str '' \<newline>- '') (comments p)) > 3000 \<longrightarrow>
                    ctext = take 3000 (join (str '' \<newline>- '') (comments p)) @ str ''...'')"
    using post_block_parts [of i p] combined_comments_cases [of "comments p"]
    by (intro exI [of _ "take 1500 (selftext p)"] exI [of _ "combined_comments (comments p)"]) simp
qed

theorem excerpt_and_comments_capped_witness:
  "[long_post] \<noteq> []
   \<and> prepare_posts_for_summary (str ''stocks'') [long_post]
      = digest_header (str ''stocks'') @ block_head 1 long_post
        @ str ''Post content: '' @ replicate 1500 0x78 @ str ''...\<newline>\<newline>''
        @ str ''Comments:\<newline>- '' @ replicate 3000 0x79 @ str ''...'' @ str ''\<newline>''
        @ block_end 1"
proof -
  have ne: "[long_post] \<noteq> []" by simp
  note th = excerpt_and_comments_capped [OF ne, of "str ''stocks''"]
  have sorted1: "posts_sorted [long_post] = [long_post]"
    by (simp add: posts_sorted_def sorted_reverse_def)
  from th have whole: "prepare_posts_for_summary (str ''stocks'') [long_post]
      = digest_header (str ''stocks'') @ post_block 1 long_post"
    by (simp add: sorted1)
  from th obtain excerpt ctext where
    blk: "post_block 1 long_post =
                 block_head 1 long_post
                 @ (if selftext long_post = [] then []
                    else str ''Post content: '' @ excerpt @ str ''...\<newline>\<newline>'')
                 @ (if comments long_post = [] then []
                    else str ''Comments:\<newline>- '' @ ctext @ str ''\<newline>'')
                 @ block_end 1"
    and ex: "excerpt = take 1500 (selftext long_post)"
    and ct: "length (join (str '' \<newline>- '') (comments long_post)) > 3000 \<longrightarrow>
                    ctext = take 3000 (join (str '' \<newline>- '') (comments long_post)) @ str ''...''"
    by blast
  have "excerpt = replicate 1500 0x78"
    using ex by (simp add: long_post_def)
  moreover have "ctext = replicate 3000 0x79 @ str ''...''"
    using ct by (simp add: long_post_def)
  moreover have "selftext long_post \<noteq> []" "comments long_post \<noteq> []"
    by (simp_all add: long_post_def)
  ultimately show ?thesis
    using ne whole blk by simp
qed

section \<open>The comment flattener: results\<close>

lemma join_Cons: "xs \<noteq> [] \<Longrightarrow> join sep (x # xs) = x @ sep @ join sep xs"
  by (cases xs) simp_all

lemma splitlines_nonempty: "s \<noteq> [] \<Longrightarrow> splitlines s \<noteq> []"
  by (subst splitlines.simps) (simp add: Let_def split: list.splits)

lemma replace_breaks_plain:
  "\<forall>c \<in> set xs. \<not> is_linebreak c \<Longrightarrow> replace_breaks (xs @ ys) = xs @ replace_breaks ys"
proof (induction xs rule: replace_breaks.induct)
  case 1 show ?case by simp
next
  case (2 c)
  then have "c \<noteq> 0x0D" by (auto simp: is_linebreak_def)
  with 2 show ?case by (cases ys) simp_all
next
  case (3 c d cs)
  then have "\<not> is_linebreak c" "c \<noteq> 0x0D" by (auto simp: is_linebreak_def)
  with 3 show ?case by simp
qed

lemma replace_breaks_break:
  "is_linebreak c \<Longrightarrow>
   replace_breaks (c # r) = 0x20 # replace_breaks (if c = 0x0D \<and> r \<noteq> [] \<and> hd r = 0x0A then tl r else r)"
  by (cases r) auto


lemma splitlines_Nil: "splitlines [] = []"
  by (subst splitlines.simps) simp

lemma splitlines_unfold:
  "s \<noteq> [] \<Longrightarrow>
   splitlines s =
     (case dropWhile (\<lambda>c. \<not> is_linebreak c) s of
        [] \<Rightarrow> [takeWhile (\<lambda>c. \<not> is_linebreak c) s]
      | c # r \<Rightarrow> takeWhile (\<lambda>c. \<not> is_linebreak c) s
                 # splitlines (if c = 0x0D \<and> r \<noteq> [] \<and> hd r = 0x0A then tl r else r))"
  by (subst splitlines.simps) (simp add: Let_def)

lemma replace_breaks_splitlines:
  "replace_breaks s = join (str '' '') (splitlines s) @ trailing s"
proof (induction s rule: splitlines.induct)
  case (1 s)
  show ?case
  proof (cases "s = []")
    case True
    then show ?thesis by (simp add: splitlines_Nil trailing_def)
  next
    case False
    define line where "line = takeWhile (\<lambda>c. \<not> is_linebreak c) s"
    define rest where "rest = dropWhile (\<lambda>c. \<not> is_linebreak c) s"
    have s: "s = line @ rest" by (simp add: line_def rest_def)
    have plain: "\<forall>c \<in> set line. \<not> is_linebreak c"
      unfolding line_def by (auto dest: set_takeWhileD)
    have unf: "splitlines s =
        (case rest of [] \<Rightarrow> [line]
         | c # r \<Rightarrow> line # splitlines (if c = 0x0D \<and> r \<noteq> [] \<and> hd r = 0x0A then tl r else r))"
      unfolding line_def rest_def by (rule splitlines_unfold [OF False])
    have rb_line: "replace_breaks s = line @ replace_breaks rest"
      using replace_breaks_plain [OF plain, of rest] s by simp
    show ?thesis
    proof (cases rest)
      case Nil
      with s have sl: "s = line" by simp
      with plain False have "trailing s = []" by (simp add: trailing_def)
      moreover have "splitlines s = [line]"
        using unf by (simp only: Nil list.case)
      moreover have "replace_breaks s = line"
        using rb_line Nil by simp
      ultimately show ?thesis by simp
    next
      case (Cons c r)
      define r' where "r' = (if c = 0x0D \<and> r \<noteq> [] \<and> hd r = 0x0A then tl r else r)"
      have "rest \<noteq> []" using Cons by simp
      then have "\<not> \<not> is_linebreak (hd rest)"
        unfolding rest_def by (rule hd_dropWhile)
      then have brk: "is_linebreak c" using Cons by simp
      have sp: "splitlines s = line # splitlines r'"
        using unf by (simp only: Cons list.case r'_def)
      have IH: "replace_breaks r' = join (str '' '') (splitlines r') @ trailing r'"
        using 1 [OF False line_def rest_def Cons] by (simp only: r'_def)
      have "replace_breaks rest = 0x20 # replace_breaks r'"
        unfolding Cons r'_def by (rule replace_breaks_break [OF brk])
      with rb_line have rb: "replace_breaks s = line @ 0x20 # replace_breaks r'"
        by simp
      show ?thesis
      proof (cases "r' = []")
        case True
        have "last s = last (c # r)" using s Cons by simp
        moreover have "is_linebreak (last (c # r))"
          using True brk unfolding r'_def
          by (cases r) (auto simp: is_linebreak_def split: if_splits)
        ultimately have "trailing s = [0x20]" using False by (simp add: trailing_def)
        moreover have "splitlines r' = []" using True by (simp add: splitlines_Nil)
        ultimately show ?thesis using rb sp True by simp
      next
        case ne: False
        have "last (c # r) = last r'"
          using ne unfolding r'_def by (cases r) (auto split: if_splits)
        then have "last s = last r'" using s Cons by simp
        then have "trailing s = trailing r'" using ne False by (simp add: trailing_def)
        moreover have "join (str '' '') (line # splitlines r')
            = line @ str '' '' @ join (str '' '') (splitlines r')"
          using splitlines_nonempty [OF ne] by (rule join_Cons)
        ultimately show ?thesis using rb sp IH by (simp add: str_def)
      qed
    qed
  qed
qed

lemma strip_trailing_space:
  assumes "is_space c"
  shows "strip (xs @ [c]) = strip xs"
proof (cases "\<forall>x \<in> set xs. is_space x")
  case True
  then have "dropWhile is_space xs = []" by simp
  moreover from True assms have "dropWhile is_space (xs @ [c]) = []" by simp
  ultimately show ?thesis by (simp only: strip_def)
next
  case False
  then obtain x where "x \<in> set xs" "\<not> is_space x" by blast
  then have "dropWhile is_space (xs @ [c]) = dropWhile is_space xs @ [c]"
    by (rule dropWhile_append1)
  then show ?thesis using assms by (simp add: strip_def)
qed

lemma strip_trailing: "strip (xs @ trailing s) = strip xs"
  by (simp add: trailing_def strip_trailing_space is_space_def)

lemma flatten_body_replace: "flatten_body body = strip (replace_breaks body)"
  by (simp add: flatten_body_def replace_breaks_splitlines strip_trailing)

lemma set_strip: "c \<in> set (strip s) \<Longrightarrow> c \<in> set s"
  by (auto simp: strip_def dest!: set_dropWhileD)

lemma space_not_linebreak: "\<not> is_linebreak 0x20"
  by (simp add: is_linebreak_def)

lemma replace_breaks_no_break: "\<forall>c \<in> set (replace_breaks s). \<not> is_linebreak c"
proof (induction s rule: replace_breaks.induct)
  case 1
  show ?case by simp
next
  case (2 c)
  show ?case by (simp add: space_not_linebreak)
next
  case (3 c d cs)
  show ?case
  proof (cases "c = 0x0D \<and> d = 0x0A")
    case True
    with 3(1) show ?thesis by (simp add: space_not_linebreak)
  next
    case False
    have IH: "\<forall>x \<in> set (replace_breaks (d # cs)). \<not> is_linebreak x"
      using 3(2) [OF False] 3(3) [OF False] by blast
    have "replace_breaks (c # d # cs) =
            (if is_linebreak c then 0x20 # replace_breaks (d # cs) else c # replace_breaks (d # cs))"
      using False by auto
    then show ?thesis
      using IH by (cases "is_linebreak c") (simp_all add: space_not_linebreak)
  qed
qed

lemma last_dropWhile: "dropWhile P xs \<noteq> [] \<Longrightarrow> last (dropWhile P xs) = last xs"
  by (metis last_appendR takeWhile_dropWhile_id)

lemma strip_ends:
  assumes ne: "strip s \<noteq> []"
  shows "\<not> is_space (hd (strip s)) \<and> \<not> is_space (last (strip s))"
proof -
  define u where "u = dropWhile is_space s"
  define t where "t = dropWhile is_space (rev u)"
  have st: "strip s = rev t" by (simp add: strip_def t_def u_def)
  with ne have tne: "t \<noteq> []" by simp
  then have "\<not> is_space (hd t)" unfolding t_def by (rule hd_dropWhile)
  moreover have "last (strip s) = hd t" using st tne by (simp add: last_rev)
  moreover have "hd (strip s) = last t" using st tne by (simp add: hd_rev)
  moreover have "last t = last (rev u)" using tne unfolding t_def by (rule last_dropWhile)
  moreover have une: "u \<noteq> []" using tne unfolding t_def by auto
  moreover have "last (rev u) = hd u" using une by (simp add: last_rev)
  moreover have "\<not> is_space (hd u)" using une unfolding u_def by (rule hd_dropWhile)
  ultimately show ?thesis by simp
qed

lemma splitlines_example:
  "splitlines [0x20, 0x61, 0x0D, 0x0A, 0x62, 0x0D, 0x63, 0x2028, 0x20, 0x0A] = [[0x20, 0x61], [0x62], [0x63], [0x20]]"
  by (simp add: splitlines_unfold splitlines_Nil is_linebreak_def)

text \<open>
  C9. For every comment body, the flattened body \<^verbatim>\<open>" ".join(body.splitlines()).strip()\<close>
  contains no line-break character of any kind (LF, CR, VT, FF, FS, GS, RS, NEL, LINE
  SEPARATOR, PARAGRAPH SEPARATOR); it is the body with every line break replaced by one
  space, trimmed; and it neither starts nor ends with a whitespace character.
\<close>

theorem flatten_body_single_line:
  "(\<forall>c \<in> set (flatten_body body). \<not> is_linebreak c)
   \<and> flatten_body body = strip (replace_breaks body)
   \<and> (flatten_body body \<noteq> [] \<longrightarrow>
        \<not> is_space (hd (flatten_body body)) \<and> \<not> is_space (last (flatten_body body)))"
proof (intro conjI ballI impI)
  fix c assume "c \<in> set (flatten_body body)"
  then have "c \<in> set (replace_breaks body)"
    unfolding flatten_body_replace by (rule set_strip)
  then show "\<not> is_linebreak c" using replace_breaks_no_break by blast
next
  show "flatten_body body = strip (replace_breaks body)" by (rule flatten_body_replace)
next
  assume "flatten_body body \<noteq> []"
  then show "\<not> is_space (hd (flatten_body body))" "\<not> is_space (last (flatten_body body))"
    using strip_ends [of "join (str '' '') (splitlines body)"] by (simp_all add: flatten_body_def)
qed

theorem flatten_body_single_line_witness:
  "flatten_body [0x20, 0x61, 0x0D, 0x0A, 0x62, 0x0D, 0x63, 0x2028, 0x20, 0x0A] = [0x61, 0x20, 0x62, 0x20, 0x63]
   \<and> \<not> is_linebreak 0x61 \<and> \<not> is_linebreak 0x20 \<and> \<not> is_linebreak 0x62 \<and> \<not> is_linebreak 0x63
   \<and> strip (replace_breaks [0x20, 0x61, 0x0D, 0x0A, 0x62, 0x0D, 0x63, 0x2028, 0x20, 0x0A]) = [0x61, 0x20, 0x62, 0x20, 0x63]
   \<and> \<not> is_space 0x61 \<and> \<not> is_space 0x63"
proof -
  have v: "flatten_body [0x20, 0x61, 0x0D, 0x0A, 0x62, 0x0D, 0x63, 0x2028, 0x20, 0x0A] = [0x61, 0x20, 0x62, 0x20, 0x63]"
    by (simp add: flatten_body_def splitlines_example strip_def is_space_def str_def)
  show ?thesis
    using flatten_body_single_line [of "[0x20, 0x61, 0x0D, 0x0A, 0x62, 0x0D, 0x63, 0x2028, 0x20, 0x0A]"]
    unfolding v by simp
qed








section \<open>The post collector: results\<close>

lemma posts_loop_filter:
  "posts_loop cutoff submissions posts =
     posts @ map make_post (filter (\<lambda>s. sub_created_utc s \<ge> cutoff) submissions)"
  by (induction submissions arbitrary: posts) simp_all

lemma get_today_posts_filter:
  "subreddit_new env subreddit SUBREDDIT_MAX_POSTS = Inr submissions \<Longrightarrow>
   get_today_posts env subreddit =
     Inr (map make_post
           (filter (\<lambda>s. sub_created_utc s \<ge> utcnow env - 24 * 3600 - local_utcoffset env)
              submissions))"
  by (simp add: get_today_posts_def posts_loop_filter cutoff_ts_def timestamp_def)

lemma get_today_posts_utc_zone:
  "local_utcoffset env = 0 \<Longrightarrow>
   subreddit_new env subreddit SUBREDDIT_MAX_POSTS = Inr submissions \<Longrightarrow>
   get_today_posts env subreddit =
     Inr (map make_post (filter (\<lambda>s. sub_created_utc s \<ge> utcnow env - 24 * 3600) submissions))"
  by (simp add: get_today_posts_filter)

lemma get_today_posts_utc_zone_example:
  "get_today_posts utc_env (str ''stocks'') = Inr [make_post (plain_submission (1762387200 - 24 * 3600))]"
  using get_today_posts_utc_zone [of utc_env "str ''stocks''"]
  by (simp add: utc_env_def plain_submission_def)

text \<open>
  C4. The claim: an item is included if and only if it was created at or after the
  collection time less 24 hours. \<^verbatim>\<open>get_today_posts\<close> keeps the submissions created at or
  after \<open>cutoff_ts\<close> (\<open>get_today_posts_filter\<close>), which is what the claim says on a
  machine whose local time zone is UTC (\<open>get_today_posts_utc_zone\<close>). Elsewhere the
  cutoff is shifted by the local offset, because \<^verbatim>\<open>timestamp()\<close> reads the naive result
  of \<^verbatim>\<open>utcnow()\<close> as local time: on a machine two hours ahead of UTC a submission
  created 25 hours before the collection, strictly before the 24-hour cutoff, is
  included.
\<close>

theorem old_post_included_off_utc:
  "get_today_posts tz_env (str ''stocks'') = Inr [make_post (plain_submission (1762387200 - 25 * 3600))]
   \<and> sub_created_utc (plain_submission (1762387200 - 25 * 3600)) < utcnow tz_env - 24 * 3600"
  by (simp add: get_today_posts_def cutoff_ts_def timestamp_def tz_env_def plain_submission_def)

section \<open>The summarizer: results\<close>

text \<open>
  C3. When the call of the inference backend raises an exception \<open>e\<close>,
  \<^verbatim>\<open>summarize_with_openai\<close> returns a string (it raises nothing): the text
  \<^verbatim>\<open>Error generating summary: \<close> followed by \<^verbatim>\<open>str(e)\<close>, which is not empty and contains
  the description of the failure.
\<close>

theorem backend_failure_as_text:
  assumes "chat_completions_create env OPENAI_MODEL OPENAI_MESSAGE_SYSTEM
             (OPENAI_MESSAGE_USER @ text) OPENAI_MAX_COMPLETION_TOKENS = Inl e"
  shows "summarize_with_openai env text = Some (str ''Error generating summary: '' @ exn_str e)
         \<and> str ''Error generating summary: '' @ exn_str e \<noteq> []
         \<and> (\<exists>before after. str ''Error generating summary: '' @ exn_str e = before @ exn_str e @ after)"
proof (intro conjI)
  show "summarize_with_openai env text = Some (str ''Error generating summary: '' @ exn_str e)"
    using assms by (simp add: summarize_with_openai_def)
  show "str ''Error generating summary: '' @ exn_str e \<noteq> []"
    by (simp add: str_def)
  show "\<exists>before after. str ''Error generating summary: '' @ exn_str e = before @ exn_str e @ after"
    by (intro exI [of _ "str ''Error generating summary: ''"] exI [of _ "[]"]) simp
qed

theorem backend_failure_as_text_witness:
  "chat_completions_create failing_backend OPENAI_MODEL OPENAI_MESSAGE_SYSTEM
     (OPENAI_MESSAGE_USER @ str ''No posts found for today.'') OPENAI_MAX_COMPLETION_TOKENS
     = Inl (Exception (str ''Connection error.''))
   \<and> summarize_with_openai failing_backend (str ''No posts found for today.'')
     = Some (str ''Error generating summary: Connection error.'')"
proof -
  have call: "chat_completions_create failing_backend OPENAI_MODEL OPENAI_MESSAGE_SYSTEM
     (OPENAI_MESSAGE_USER @ str ''No posts found for today.'') OPENAI_MAX_COMPLETION_TOKENS
     = Inl (Exception (str ''Connection error.''))"
    by (simp add: failing_backend_def)
  from backend_failure_as_text [OF call]
  have "summarize_with_openai failing_backend (str ''No posts found for today.'')
     = Some (str ''Error generating summary: '' @ exn_str (Exception (str ''Connection error.'')))"
    by blast
  then have "summarize_with_openai failing_backend (str ''No posts found for today.'')
     = Some (str ''Error generating summary: Connection error.'')"
    by (simp add: str_def)
  with call show ?thesis by blast
qed

section \<open>The run of one source and the loop over the sources: results\<close>

lemma run_returns: "\<exists>summary w'. run env subreddit w = (Inr summary, w')"
  by (simp add: run_def split: prod.splits sum.splits)

lemma run_sources_all:
  "\<exists>summaries w'. run_sources env subs w = (Inr summaries, w') \<and> length summaries = length subs"
proof (induction subs arbitrary: w)
  case Nil
  show ?case by simp
next
  case (Cons sub subs)
  obtain summary w1 where r: "run env sub w = (Inr summary, w1)"
    using run_returns by blast
  obtain summaries w2 where rs: "run_sources env subs w1 = (Inr summaries, w2)"
      and len: "length summaries = length subs"
    using Cons.IH by blast
  show ?case by (simp add: r rs len)
qed

lemma main_loop_runs_all_sources:
  "\<exists>summaries w'. run_sources env main_sources w = (Inr summaries, w') \<and> length summaries = 6"
proof -
  have "length main_sources = 6" by (simp add: main_sources_def)
  with run_sources_all [of env main_sources w] show ?thesis by metis
qed

lemma run_try_collect_raises:
  "get_today_posts env subreddit = Inl e \<Longrightarrow> run_try env subreddit w = (Inl e, w)"
  by (simp add: run_try_def)

lemma run_try_notify_raises:
  "run_try env subreddit w = (r, w') \<Longrightarrow> get_today_posts env subreddit = Inr posts \<Longrightarrow>
   summarize_with_openai env (prepare_posts_for_summary subreddit posts) = Some generated \<Longrightarrow>
   file_write_error env (subreddit @ str ''.txt'') = None \<Longrightarrow>
   file_write_error env (subreddit @ str ''-summary.txt'') = None \<Longrightarrow>
   requests_post env ([0x1F4CA] @ str '' TODAY'S r/'' @ subreddit @ str '' SUMMARY\<newline>\<newline>'' @ generated) = Some e \<Longrightarrow>
   r = Inl e"
  by (simp add: run_try_def write_output_file_def send_telegram_message_def Let_def)

lemma run_try_persist_raises:
  "run_try env subreddit w = (r, w') \<Longrightarrow> get_today_posts env subreddit = Inr posts \<Longrightarrow>
   summarize_with_openai env (prepare_posts_for_summary subreddit posts) = Some generated \<Longrightarrow>
   file_write_error env (subreddit @ str ''.txt'') = Some e \<Longrightarrow>
   r = Inl e"
  by (simp add: run_try_def write_output_file_def Let_def)

text \<open>
  C1. When the body of the \<^verbatim>\<open>try\<close> of \<^verbatim>\<open>run\<close> raises an exception at any of its steps,
  \<^verbatim>\<open>run\<close> returns the empty string, in the world the failed step left. The loop over
  the sources then runs every remaining source from that world: it returns one result
  per source, the empty string first, and raises nothing.
\<close>

theorem failed_run_is_empty_and_loop_goes_on:
  assumes "fst (run_try env subreddit w) = Inl e"
  shows "run env subreddit w = (Inr [], snd (run_try env subreddit w))
         \<and> (\<exists>summaries w'.
               run_sources env subs (snd (run_try env subreddit w)) = (Inr summaries, w')
               \<and> length summaries = length subs
               \<and> run_sources env (subreddit # subs) w = (Inr ([] # summaries), w'))"
proof -
  obtain w1 where t: "run_try env subreddit w = (Inl e, w1)"
    using assms by (cases "run_try env subreddit w") simp
  then have r: "run env subreddit w = (Inr [], w1)"
    by (simp add: run_def)
  obtain summaries w2 where rs: "run_sources env subs w1 = (Inr summaries, w2)"
      and len: "length summaries = length subs"
    using run_sources_all by blast
  have "run_sources env (subreddit # subs) w = (Inr ([] # summaries), w2)"
    by (simp add: r rs)
  with t r rs len show ?thesis by simp
qed

theorem failed_run_is_empty_and_loop_goes_on_witness:
  "fst (run_try flaky_env (str ''wallstreetbets'') empty_world)
     = Inl (Exception (str ''received 503 HTTP response''))
   \<and> run flaky_env (str ''wallstreetbets'') empty_world = (Inr [], empty_world)
   \<and> fst (run_sources flaky_env [str ''wallstreetbets'', str ''stocks''] empty_world)
     = Inr [[], [0x1F4CA] @ str '' TODAY'S r/stocks SUMMARY\<newline>\<newline>ok'']
   \<and> telegram (snd (run_sources flaky_env [str ''wallstreetbets'', str ''stocks''] empty_world))
     = [[0x1F4CA] @ str '' TODAY'S r/stocks SUMMARY\<newline>\<newline>ok'']"
proof -
  have c: "get_today_posts flaky_env (str ''wallstreetbets'')
             = Inl (Exception (str ''received 503 HTTP response''))"
    by (simp add: get_today_posts_def flaky_env_def)
  have t: "run_try flaky_env (str ''wallstreetbets'') empty_world
             = (Inl (Exception (str ''received 503 HTTP response'')), empty_world)"
    using c by (rule run_try_collect_raises)
  then have f: "fst (run_try flaky_env (str ''wallstreetbets'') empty_world)
             = Inl (Exception (str ''received 503 HTTP response''))"
    by simp
  have s1: "get_today_posts flaky_env (str ''stocks'') = Inr []"
    by (simp add: get_today_posts_def flaky_env_def str_def)
  have s2: "summarize_with_openai flaky_env msg = Some (str ''ok'')" for msg
    by (simp add: summarize_with_openai_def flaky_env_def)
  have s3: "file_write_error flaky_env name = None" "requests_post flaky_env msg = None" for name msg
    by (simp_all add: flaky_env_def)
  have stocks: "run_sources flaky_env [str ''stocks''] empty_world
      = (Inr [[0x1F4CA] @ str '' TODAY'S r/stocks SUMMARY\<newline>\<newline>ok''],
         \<lparr> output_dir = [(str ''stocks.txt'', Inr (str ''No posts found for today.'')),
                          (str ''stocks-summary.txt'', Inr ([0x1F4CA] @ str '' TODAY'S r/stocks SUMMARY\<newline>\<newline>ok''))],
           telegram = [[0x1F4CA] @ str '' TODAY'S r/stocks SUMMARY\<newline>\<newline>ok''] \<rparr>)"
    by (simp add: run_def run_try_def s1 s2 s3 write_output_file_def send_telegram_message_def
        prepare_posts_for_summary_def empty_world_def Let_def)
       (simp add: str_def)
  from failed_run_is_empty_and_loop_goes_on [OF f, of "[str ''stocks'']"] t stocks
  show ?thesis by simp
qed

section \<open>The aggregation pass: results\<close>











section \<open>The digest formatter on a store: results\<close>

lemma map_insort_key:
  "\<forall>y \<in> set (x # xs). key y = key' (f y) \<Longrightarrow>
   map f (insort_key key x xs) = insort_key key' (f x) (map f xs)"
  by (induction xs) auto

lemma map_sort_key:
  "\<forall>y \<in> set xs. key y = key' (f y) \<Longrightarrow>
   map f (sort_key key xs) = sort_key key' (map f xs)"
proof (induction xs)
  case Nil
  show ?case by simp
next
  case (Cons x xs)
  have "map f (insort_key key x (sort_key key xs)) = insort_key key' (f x) (map f (sort_key key xs))"
    using Cons.prems by (intro map_insort_key) simp
  with Cons show ?case by simp
qed

lemma map_sorted_reverse:
  assumes "\<forall>y \<in> set xs. key y = key' (f y)"
  shows "map f (sorted_reverse key xs) = sorted_reverse key' (map f xs)"
proof -
  from assms have "\<forall>y \<in> set (rev xs). key y = key' (f y)" by simp
  then have eq: "map f (sort_key key (rev xs)) = sort_key key' (map f (rev xs))"
    by (rule map_sort_key)
  have "map f (rev (sort_key key (rev xs))) = rev (map f (sort_key key (rev xs)))"
    by (simp add: rev_map)
  also have "\<dots> = rev (sort_key key' (rev (map f xs)))"
    by (simp only: eq rev_map)
  finally show ?thesis by (simp only: sorted_reverse_def)
qed

lemma get_dict_alloc: "get_dict h r = Some p \<Longrightarrow> get_dict (h @ [x]) r = Some p"
  by (auto simp: get_dict_def nth_append split: if_splits)

lemma get_list_alloc: "get_list (h @ [ListObj refs]) (length h) = Some refs"
  by (simp add: get_list_def)

lemma format_loop_store_pure:
  "\<forall>r \<in> set refs. get_dict h r \<noteq> None \<Longrightarrow>
   format_loop_store h i refs acc = Some (format_loop i (map (\<lambda>r. the (get_dict h r)) refs) acc)"
  by (induction refs arbitrary: i acc) auto

text \<open>
  C10. Called with the address of a list of post dictionaries, the formatter returns the
  digest text of the posts the list holds, and the store after the call agrees with the
  store before on every object that existed: the ranked order is a new list object, the
  argument list still holds the same addresses in the same order, and every post
  dictionary is as it was.
\<close>

theorem formatter_leaves_input:
  assumes "get_list h posts = Some refs" and "\<forall>r \<in> set refs. get_dict h r \<noteq> None"
  shows "\<exists>summary_text h'.
           prepare_posts_for_summary_store subreddit posts h = Some (summary_text, h')
           \<and> summary_text = prepare_posts_for_summary subreddit (map (\<lambda>r. the (get_dict h r)) refs)
           \<and> take (length h) h' = h
           \<and> get_list h' posts = Some refs
           \<and> (\<forall>r \<in> set refs. get_dict h' r = get_dict h r)"
proof (cases "refs = []")
  case True
  with assms show ?thesis
    by (simp add: prepare_posts_for_summary_store_def prepare_posts_for_summary_def)
next
  case False
  define sorted_refs where "sorted_refs = sorted_reverse (\<lambda>r. score (the (get_dict h r))) refs"
  define h' where "h' = h @ [ListObj sorted_refs]"
  have valid: "\<not> list_ex (\<lambda>r. get_dict h r = None) refs"
    using assms(2) by (simp add: list_ex_iff)
  have set_sorted: "set sorted_refs = set refs"
    by (simp add: sorted_refs_def sorted_reverse_def)
  have same: "get_dict h' r = get_dict h r" if "r \<in> set refs" for r
    using that assms(2) get_dict_alloc [of h r _ "ListObj sorted_refs"] by (auto simp: h'_def)
  have new_list: "get_list h' (length h) = Some sorted_refs"
    unfolding h'_def by (rule get_list_alloc)
  have "\<forall>r \<in> set sorted_refs. get_dict h' r \<noteq> None"
    using same assms(2) set_sorted by simp
  then have loop: "format_loop_store h' i sorted_refs acc
      = Some (format_loop i (map (\<lambda>r. the (get_dict h' r)) sorted_refs) acc)" for i acc
    by (rule format_loop_store_pure)
  have "map (\<lambda>r. the (get_dict h' r)) sorted_refs = map (\<lambda>r. the (get_dict h r)) sorted_refs"
    using same set_sorted by simp
  also have "\<dots> = posts_sorted (map (\<lambda>r. the (get_dict h r)) refs)"
    unfolding sorted_refs_def posts_sorted_def by (rule map_sorted_reverse) simp
  finally have ranked: "map (\<lambda>r. the (get_dict h' r)) sorted_refs
      = posts_sorted (map (\<lambda>r. the (get_dict h r)) refs)" .
  have run: "prepare_posts_for_summary_store subreddit posts h =
      Some (format_loop 1 (posts_sorted (map (\<lambda>r. the (get_dict h r)) refs))
              (str ''Today's Reddit r/'' @ subreddit @ str '' posts:\<newline>\<newline>''), h')"
    using assms(1) valid False new_list loop ranked
    by (simp add: prepare_posts_for_summary_store_def alloc_def sorted_refs_def [symmetric]
        h'_def [symmetric])
  have old_list: "get_list h' posts = Some refs"
    using assms(1) by (auto simp: get_list_def h'_def nth_append split: if_splits)
  have "take (length h) h' = h" by (simp add: h'_def)
  with run old_list same False show ?thesis
    by (simp add: prepare_posts_for_summary_def)
qed

theorem formatter_leaves_input_witness:
  "get_list example_store 3 = Some [0, 1, 2]
   \<and> (\<exists>summary_text.
         prepare_posts_for_summary_store (str ''stocks'') 3 example_store
           = Some (summary_text, example_store @ [ListObj [1, 2, 0]])
         \<and> summary_text =
             prepare_posts_for_summary (str ''stocks'')
               [example_post (str ''a'') 5, example_post (str ''b'') 20, example_post (str ''c'') 20])
   \<and> get_list (example_store @ [ListObj [1, 2, 0]]) 3 = Some [0, 1, 2]"
proof -
  have l: "get_list example_store 3 = Some [0, 1, 2]"
    by (simp add: get_list_def example_store_def)
  have d: "\<forall>r \<in> set [0, 1, 2]. get_dict example_store r \<noteq> None"
    by (simp add: get_dict_def example_store_def)
  have v: "map (\<lambda>r. the (get_dict example_store r)) [0, 1, 2]
      = [example_post (str ''a'') 5, example_post (str ''b'') 20, example_post (str ''c'') 20]"
    by (simp add: get_dict_def example_store_def)
  have run: "snd (the (prepare_posts_for_summary_store (str ''stocks'') 3 example_store))
      = example_store @ [ListObj [1, 2, 0]]"
    by (simp add: prepare_posts_for_summary_store_def l alloc_def list_ex_iff get_dict_def
        example_store_def example_post_def sorted_reverse_def get_list_def format_loop_store_pure
        nth_append)
  from formatter_leaves_input [OF l d, of "str ''stocks''"] obtain summary_text h' where
    r: "prepare_posts_for_summary_store (str ''stocks'') 3 example_store = Some (summary_text, h')"
    and t: "summary_text = prepare_posts_for_summary (str ''stocks'')
               (map (\<lambda>r. the (get_dict example_store r)) [0, 1, 2])"
    and k: "get_list h' 3 = Some [0, 1, 2]"
    by blast
  from r run have h': "h' = example_store @ [ListObj [1, 2, 0]]" by simp
  from l r t k show ?thesis unfolding v h' by blast
qed

end
